theory Spec2Isabelle
  imports
    Main
    "HOL-Library.List_Lexorder"
    "HOL-Library.Char_ord"
    "HOL-Library.Multiset"
begin

section \<open>Python strings\<close>

text \<open>
  A Python \<open>str\<close> is modelled as a \<open>string\<close> (a list of 8-bit characters) and a
  \<open>bytes\<close> value likewise.  The character classes below are the ASCII part of Python's
  \<open>str.lower\<close>, \<open>str.isalnum\<close>, \<open>str.isspace\<close> and \<open>str.title\<close>; text outside
  ASCII is outside the model.
\<close>

type_synonym bytes = string

definition is_upper :: "char \<Rightarrow> bool" where
  "is_upper c = (65 \<le> (of_char c :: nat) \<and> (of_char c :: nat) \<le> 90)"

definition is_lower :: "char \<Rightarrow> bool" where
  "is_lower c = (97 \<le> (of_char c :: nat) \<and> (of_char c :: nat) \<le> 122)"



definition py_isspace :: "char \<Rightarrow> bool" where
  "py_isspace c = ((9 \<le> (of_char c :: nat) \<and> (of_char c :: nat) \<le> 13)
     \<or> (28 \<le> (of_char c :: nat) \<and> (of_char c :: nat) \<le> 32))"

definition lower_char :: "char \<Rightarrow> char" where
  "lower_char c = (if is_upper c then char_of ((of_char c :: nat) + 32) else c)"

definition upper_char :: "char \<Rightarrow> char" where
  "upper_char c = (if is_lower c then char_of ((of_char c :: nat) - 32) else c)"


text \<open>\<open>s.replace(a, b)\<close> for one-character \<open>a\<close> and \<open>b\<close>.\<close>

definition py_replace :: "char \<Rightarrow> char \<Rightarrow> string \<Rightarrow> string" where
  "py_replace a b s = map (\<lambda>c. if c = a then b else c) s"

definition py_rstrip :: "string \<Rightarrow> string" where
  "py_rstrip s = rev (dropWhile py_isspace (rev s))"

definition py_strip :: "string \<Rightarrow> string" where
  "py_strip s = py_rstrip (dropWhile py_isspace s)"

text \<open>
  \<open>str.title\<close>: a cased character is upper-cased when the character before it is not
  cased and lower-cased when it is; the flag is \<open>previous_is_cased\<close> of CPython.
\<close>

fun title_from :: "bool \<Rightarrow> string \<Rightarrow> string" where
  "title_from prev [] = []"
| "title_from prev (c # cs) =
     (if is_lower c then (if prev then c else upper_char c) # title_from True cs
      else if is_upper c then (if prev then lower_char c else c) # title_from True cs
      else c # title_from False cs)"

definition py_title :: "string \<Rightarrow> string" where
  "py_title s = title_from False s"

text \<open>\<open>sep.join(parts)\<close>.\<close>

fun py_join :: "string \<Rightarrow> string list \<Rightarrow> string" where
  "py_join sep [] = []"
| "py_join sep [x] = x"
| "py_join sep (x # y # ys) = x @ sep @ py_join sep (y # ys)"

text \<open>\<open>str(n)\<close> for a non-negative integer: its decimal digits.\<close>

definition digit_char :: "nat \<Rightarrow> char" where
  "digit_char d = char_of (48 + d)"

fun str_nat :: "nat \<Rightarrow> string" where
  "str_nat n = (if n < 10 then [digit_char n] else str_nat (n div 10) @ [digit_char (n mod 10)])"

declare str_nat.simps [simp del]

section \<open>Slide identifiers (add.py)\<close>











subsection \<open>The allocator picks the least free counter\<close>







section \<open>The document compiler (build.py)\<close>

subsection \<open>The registry\<close>

text \<open>
  The registry as \<open>yaml.safe_load\<close> returns it, typed: every topic has \<open>id\<close>, \<open>name\<close>
  and \<open>order\<close>, every slide the keys the compiler indexes (\<open>id\<close>, \<open>topic\<close>, \<open>title\<close>,
  \<open>created\<close>).  The keys read with \<open>slide.get(key, "")\<close> are strings whose empty value
  stands for an absent key as well: the code tests them for truth only.  The title of the
  registry is optional.
\<close>

record topic =
  t_id :: string
  t_name :: string
  t_order :: int

record slide =
  s_id :: string
  s_topic :: string
  s_title :: string
  s_created :: string
  s_figure :: string
  s_caption :: string
  s_description :: string
  s_content :: string
  s_notes :: string

record registry =
  reg_title :: "string option"
  reg_topics :: "topic list"
  reg_slides :: "slide list"

subsection \<open>Dictionaries and sorting\<close>

text \<open>
  A dictionary built by a comprehension over a list of pairs: a later pair with the same
  key replaces the value of an earlier one.
\<close>

definition dict_of :: "('k \<times> 'v) list \<Rightarrow> 'k \<Rightarrow> 'v option" where
  "dict_of kvs = map_of (rev kvs)"

text \<open>
  \<open>slides_by_topic\<close> is a dictionary whose keys are iterated in the order of their first
  insertion, so it is an association list.  One step of the grouping loop: a topic not yet
  present is added at the end with an empty list, then the slide is appended to the list
  of its topic.
\<close>

fun dict_append :: "string \<Rightarrow> slide \<Rightarrow> (string \<times> slide list) list \<Rightarrow> (string \<times> slide list) list" where
  "dict_append k v [] = [(k, [] @ [v])]"
| "dict_append k v ((k', vs) # d) =
     (if k' = k then (k', vs @ [v]) # d else (k', vs) # dict_append k v d)"

definition group_slides :: "slide list \<Rightarrow> (string \<times> slide list) list" where
  "group_slides slides = foldl (\<lambda>d slide. dict_append (s_topic slide) slide d) [] slides"

text \<open>\<open>slides_by_topic[topic_id]\<close>; the key is always one of the dictionary's own keys.\<close>

definition dict_get :: "(string \<times> slide list) list \<Rightarrow> string \<Rightarrow> slide list" where
  "dict_get d k = (case map_of d k of Some vs \<Rightarrow> vs | None \<Rightarrow> [])"

text \<open>
  \<open>sorted(xs, key=f)\<close> is a stable sort, ascending in the key; with \<open>reverse=True\<close> it is
  descending in the key and still keeps elements of equal keys in their original order
  (CPython reverses the list, sorts it and reverses the result).
\<close>

definition py_sorted :: "('a \<Rightarrow> 'k::linorder) \<Rightarrow> 'a list \<Rightarrow> 'a list" where
  "py_sorted f xs = sort_key f xs"

definition py_sorted_reverse :: "('a \<Rightarrow> 'k::linorder) \<Rightarrow> 'a list \<Rightarrow> 'a list" where
  "py_sorted_reverse f xs = rev (sort_key f (rev xs))"

text \<open>The slice \<open>xs[:count]\<close> (the count is \<open>cnt\<close> below); a negative count counts from the end.\<close>

definition py_slice_to :: "'a list \<Rightarrow> int \<Rightarrow> 'a list" where
  "py_slice_to xs cnt =
     (if 0 \<le> cnt then take (nat cnt) xs else take (length xs - nat (- cnt)) xs)"

subsection \<open>Rendering\<close>

definition render_slide :: "slide \<Rightarrow> string list \<Rightarrow> string list" where
  "render_slide slide lines =
     (let figure = s_figure slide;
          lines =
            (if figure \<noteq> [] then
               (let caption = (if s_caption slide \<noteq> [] then s_caption slide else s_description slide);
                    lines = lines @ [''![]('' @ figure @ '')'', ''''] in
                if caption \<noteq> []
                then lines @ [''::: '' @ ''{'' @ ''.caption}'', py_rstrip caption, '':::'', '''']
                else lines)
             else lines);
          content = s_content slide;
          lines = (if content \<noteq> [] then lines @ [py_rstrip content, ''''] else lines);
          notes = s_notes slide
      in if notes \<noteq> [] then lines @ [''::: '' @ ''{'' @ ''.notes}'', notes, '':::'', ''''] else lines)"

definition slides_header :: "string \<Rightarrow> string list" where
  \<open>slides_header title =
     [''---'',
      ''title: "'' @ title @ ''"'',
      ''format:'',
      ''  revealjs:'',
      ''    theme: default'',
      ''    slide-number: true'',
      ''    fig-cap-location: bottom'',
      ''    margin: 0.05'',
      ''    scrollable: true'',
      ''css: styles.css'',
      ''---'',
      '''']\<close>

definition topic_order_key :: "registry \<Rightarrow> string \<Rightarrow> int" where
  "topic_order_key registry x =
     (case dict_of (map (\<lambda>t. (t_id t, t_order t)) (reg_topics registry)) x of
        Some n \<Rightarrow> n | None \<Rightarrow> 999)"

definition sorted_topic_ids :: "registry \<Rightarrow> string list" where
  "sorted_topic_ids registry =
     py_sorted (topic_order_key registry) (map fst (group_slides (reg_slides registry)))"

text \<open>\<open>topics.get(topic_id, {"name": topic_id.replace("_", " ").title()})["name"]\<close>.\<close>

definition topic_heading_name :: "registry \<Rightarrow> string \<Rightarrow> string" where
  "topic_heading_name registry topic_id =
     (case dict_of (map (\<lambda>t. (t_id t, t)) (reg_topics registry)) topic_id of
        Some t \<Rightarrow> t_name t
      | None \<Rightarrow> py_title (py_replace (CHR ''_'') (CHR '' '') topic_id))"

text \<open>The slides of one topic section, in the order they are rendered.\<close>

definition topic_slides :: "registry \<Rightarrow> string \<Rightarrow> slide list" where
  "topic_slides registry topic_id =
     py_sorted_reverse s_created (dict_get (group_slides (reg_slides registry)) topic_id)"

definition render_deck_slide :: "string list \<Rightarrow> slide \<Rightarrow> string list" where
  "render_deck_slide lines slide =
     render_slide slide
       (lines @ [''## '' @ s_title slide @ '' '' @ ''{'' @ ''#'' @ s_id slide @ ''}'', ''''])"

definition render_topic :: "registry \<Rightarrow> string list \<Rightarrow> string \<Rightarrow> string list" where
  "render_topic registry lines topic_id =
     (let anchor = py_replace (CHR ''_'') (CHR ''-'') topic_id;
          lines = lines @
            [''# '' @ topic_heading_name registry topic_id @ '' '' @ ''{'' @ ''#'' @ anchor @ ''}'', '''']
      in foldl render_deck_slide lines (topic_slides registry topic_id))"

definition build_slides_qmd :: "registry \<Rightarrow> string" where
  "build_slides_qmd registry =
     (let title = (case reg_title registry of Some t \<Rightarrow> t | None \<Rightarrow> ''Research Figures'');
          lines = slides_header title;
          slides = reg_slides registry
      in if slides = [] then
           py_join ''\<newline>'' (lines @
             [''# Welcome'', '''', ''No figures added yet.'', '''',
              ''Run `slidedeck add` to add your first figure.''])
         else py_join ''\<newline>'' (foldl (render_topic registry) lines (sorted_topic_ids registry)))"

definition recent_header :: "string list" where
  \<open>recent_header =
     [''---'',
      ''title: "Recent Figures"'',
      ''format:'',
      ''  revealjs:'',
      ''    theme: default'',
      ''    slide-number: true'',
      ''    fig-cap-location: bottom'',
      ''css: styles.css'',
      ''---'',
      '''']\<close>

definition recent_slides :: "registry \<Rightarrow> int \<Rightarrow> slide list" where
  "recent_slides registry cnt =
     (let sorted_slides = py_sorted_reverse s_created (reg_slides registry)
      in py_slice_to sorted_slides cnt)"

definition render_recent_slide :: "string list \<Rightarrow> slide \<Rightarrow> string list" where
  "render_recent_slide lines slide = render_slide slide (lines @ [''## '' @ s_title slide, ''''])"

definition build_recent_qmd :: "registry \<Rightarrow> int \<Rightarrow> string" where
  "build_recent_qmd registry cnt =
     (let lines = recent_header;
          slides = reg_slides registry
      in if slides = [] then
           py_join ''\<newline>'' (lines @
             [''# Recent Figures'', '''', ''No figures added yet.'', '''',
              ''Run `slidedeck add` to add your first figure.''])
         else py_join ''\<newline>'' (foldl render_recent_slide lines (recent_slides registry cnt)))"

subsection \<open>Order of appearance and example registries\<close>

text \<open>\<open>precedes a b xs\<close>: \<open>a\<close> occurs in \<open>xs\<close> before the first \<open>b\<close>.\<close>

definition precedes :: "'a \<Rightarrow> 'a \<Rightarrow> 'a list \<Rightarrow> bool" where
  "precedes a b xs = (a \<in> set (takeWhile (\<lambda>x. x \<noteq> b) xs))"

text \<open>Registries used as examples: slides with a figure and nothing else.\<close>

definition example_slide :: "string \<Rightarrow> string \<Rightarrow> string \<Rightarrow> slide" where
  "example_slide i t d =
     \<lparr>s_id = i, s_topic = t, s_title = i, s_created = d, s_figure = ''figures/'' @ i @ ''.png'',
      s_caption = '''', s_description = '''', s_content = '''', s_notes = ''''\<rparr>"

definition intro_results :: registry where
  "intro_results =
     \<lparr>reg_title = None,
      reg_topics = [\<lparr>t_id = ''intro'', t_name = ''Introduction'', t_order = 1\<rparr>,
                    \<lparr>t_id = ''results'', t_name = ''Results'', t_order = 2\<rparr>],
      reg_slides = [example_slide ''r1'' ''results'' ''2024-01-01'',
                    example_slide ''m1'' ''misc_notes'' ''2024-01-02'',
                    example_slide ''i1'' ''intro'' ''2024-01-03'']\<rparr>"

definition late_topic :: registry where
  "late_topic =
     \<lparr>reg_title = None,
      reg_topics = [\<lparr>t_id = ''late'', t_name = ''Late'', t_order = 1000\<rparr>],
      reg_slides = [example_slide ''a'' ''late'' ''2024-01-01'',
                    example_slide ''b'' ''misc'' ''2024-01-02'']\<rparr>"

definition three_dates :: registry where
  "three_dates =
     \<lparr>reg_title = None,
      reg_topics = [\<lparr>t_id = ''results'', t_name = ''Results'', t_order = 1\<rparr>],
      reg_slides = [example_slide ''s1'' ''results'' ''2024-01-01'',
                    example_slide ''s2'' ''results'' ''2024-03-01'',
                    example_slide ''s3'' ''results'' ''2024-02-01'']\<rparr>"

definition tied_dates :: registry where
  "tied_dates =
     \<lparr>reg_title = None,
      reg_topics = [\<lparr>t_id = ''results'', t_name = ''Results'', t_order = 1\<rparr>],
      reg_slides = [example_slide ''a'' ''results'' ''2024-02-01'',
                    example_slide ''b'' ''results'' ''2024-03-01'',
                    example_slide ''c'' ''results'' ''2024-02-01'']\<rparr>"

subsection \<open>Grouping, sorting and the shape of the documents\<close>

lemma group_slides_snoc:
  "group_slides (xs @ [x]) = dict_append (s_topic x) x (group_slides xs)"
  by (simp add: group_slides_def)

lemma keys_dict_append:
  "map fst (dict_append k v d) = (if k \<in> fst ` set d then map fst d else map fst d @ [k])"
  by (induction d) force+

lemma dict_get_dict_append:
  "dict_get (dict_append k v d) k' = (if k' = k then dict_get d k @ [v] else dict_get d k')"
  by (induction d) (auto simp: dict_get_def)

lemma group_slides_keys:
  "distinct (map fst (group_slides xs)) \<and> set (map fst (group_slides xs)) = s_topic ` set xs"
proof (induction xs rule: rev_induct)
  case Nil
  show ?case by (simp add: group_slides_def)
next
  case (snoc x xs)
  then show ?case
    by (auto simp: group_slides_snoc keys_dict_append)
qed

lemma group_slides_get:
  "dict_get (group_slides xs) t = filter (\<lambda>s. s_topic s = t) xs"
proof (induction xs rule: rev_induct)
  case Nil
  show ?case by (simp add: group_slides_def dict_get_def)
next
  case (snoc x xs)
  then show ?case
    by (auto simp: group_slides_snoc dict_get_dict_append)
qed

lemma py_sorted_reverse_mset: "mset (py_sorted_reverse f xs) = mset xs"
  by (simp add: py_sorted_reverse_def)

lemma py_sorted_reverse_sorted: "sorted (rev (map f (py_sorted_reverse f xs)))"
  by (simp add: py_sorted_reverse_def rev_map)

lemma py_sorted_reverse_stable:
  "filter (\<lambda>y. f y = k) (py_sorted_reverse f xs) = filter (\<lambda>y. f y = k) xs"
  by (simp add: py_sorted_reverse_def rev_filter [symmetric] sort_key_stable)

lemma py_sorted_reverse_length: "length (py_sorted_reverse f xs) = length xs"
  by (simp add: py_sorted_reverse_def)

lemma foldl_blocks:
  assumes "\<And>l x. f l x = l @ f [] x"
  shows "foldl f l xs = l @ concat (map (f []) xs)"
proof (induction xs arbitrary: l)
  case Nil
  show ?case by simp
next
  case (Cons x xs)
  have "foldl f l (x # xs) = foldl f (f l x) xs" by simp
  also have "\<dots> = f l x @ concat (map (f []) xs)" by (rule Cons.IH)
  also have "f l x = l @ f [] x" by (rule assms)
  finally show ?case by simp
qed

lemma render_slide_append: "render_slide s l = l @ render_slide s []"
  by (simp add: render_slide_def Let_def)

lemma render_deck_slide_append: "render_deck_slide l s = l @ render_deck_slide [] s"
proof -
  have "render_slide s (l @ x) = l @ render_slide s x" for x
    using render_slide_append [of s "l @ x"] render_slide_append [of s x] by simp
  then show ?thesis by (simp add: render_deck_slide_def)
qed

lemma render_recent_slide_append: "render_recent_slide l s = l @ render_recent_slide [] s"
proof -
  have "render_slide s (l @ x) = l @ render_slide s x" for x
    using render_slide_append [of s "l @ x"] render_slide_append [of s x] by simp
  then show ?thesis by (simp add: render_recent_slide_def)
qed

lemma render_topic_blocks:
  "render_topic registry l t =
     l @ [''# '' @ topic_heading_name registry t @ '' '' @ ''{'' @ ''#''
            @ py_replace (CHR ''_'') (CHR ''-'') t @ ''}'', '''']
       @ concat (map (render_deck_slide []) (topic_slides registry t))"
  unfolding render_topic_def Let_def
  by (subst foldl_blocks [where f = render_deck_slide, OF render_deck_slide_append]) simp

lemma render_topic_append: "render_topic registry l t = l @ render_topic registry [] t"
  by (simp add: render_topic_blocks)

lemma deck_document:
  "reg_slides registry \<noteq> [] \<Longrightarrow>
   build_slides_qmd registry =
     py_join ''\<newline>''
       (slides_header (case reg_title registry of Some t \<Rightarrow> t | None \<Rightarrow> ''Research Figures'')
        @ concat (map (render_topic registry []) (sorted_topic_ids registry)))"
  unfolding build_slides_qmd_def Let_def
  by (subst foldl_blocks [where f = "render_topic registry", OF render_topic_append]) simp

lemma recent_document:
  "reg_slides registry \<noteq> [] \<Longrightarrow>
   build_recent_qmd registry cnt =
     py_join ''\<newline>''
       (recent_header @ concat (map (render_recent_slide []) (recent_slides registry cnt)))"
  unfolding build_recent_qmd_def Let_def
  by (subst foldl_blocks [where f = render_recent_slide, OF render_recent_slide_append]) simp

lemma sorted_precedes:
  "sorted (map k xs) \<Longrightarrow> a \<in> set xs \<Longrightarrow> b \<in> set xs \<Longrightarrow> k a < k b \<Longrightarrow> precedes a b xs"
proof (induction xs)
  case Nil
  then show ?case by simp
next
  case (Cons x xs)
  show ?case
  proof (cases "x = b")
    case True
    with Cons.prems have "a \<in> set xs" by auto
    with Cons.prems True have "k b \<le> k a" by auto
    with Cons.prems show ?thesis by simp
  next
    case False
    show ?thesis
    proof (cases "x = a")
      case True
      with False show ?thesis by (simp add: precedes_def)
    next
      case xa: False
      with False Cons.prems have "precedes a b xs" by (intro Cons.IH) auto
      with False show ?thesis by (simp add: precedes_def)
    qed
  qed
qed

lemma dict_of_absent: "k \<notin> fst ` set kvs \<Longrightarrow> dict_of kvs k = None"
  by (simp add: dict_of_def map_of_eq_None_iff)

lemma dict_of_distinct:
  "distinct (map fst kvs) \<Longrightarrow> (k, v) \<in> set kvs \<Longrightarrow> dict_of kvs k = Some v"
  by (simp add: dict_of_def distinct_rev rev_map [symmetric])

lemma descending_iff: "sorted_wrt (\<lambda>a b. f b \<le> f a) xs = sorted (rev (map f xs))"
  by (simp add: rev_map [symmetric] sorted_map sorted_wrt_rev sorted_wrt_map)

lemma sorted_topic_ids_sorted:
  "sorted (map (topic_order_key registry) (sorted_topic_ids registry))"
  by (simp add: sorted_topic_ids_def py_sorted_def)

lemma sorted_topic_ids_set:
  "distinct (sorted_topic_ids registry)
   \<and> set (sorted_topic_ids registry) = s_topic ` set (reg_slides registry)"
  using group_slides_keys [of "reg_slides registry"]
  by (simp add: sorted_topic_ids_def py_sorted_def)

lemma undeclared_topic:
  "u \<notin> t_id ` set (reg_topics registry) \<Longrightarrow>
   topic_order_key registry u = 999
   \<and> topic_heading_name registry u = py_title (py_replace (CHR ''_'') (CHR '' '') u)"
  by (simp add: topic_order_key_def topic_heading_name_def dict_of_absent image_image)

lemma declared_topic:
  "distinct (map t_id (reg_topics registry)) \<Longrightarrow> t \<in> set (reg_topics registry) \<Longrightarrow>
   topic_order_key registry (t_id t) = t_order t \<and> topic_heading_name registry (t_id t) = t_name t"
proof -
  assume d: "distinct (map t_id (reg_topics registry))" and t: "t \<in> set (reg_topics registry)"
  have "dict_of (map (\<lambda>t. (t_id t, t_order t)) (reg_topics registry)) (t_id t) = Some (t_order t)"
    using d t by (intro dict_of_distinct) (auto simp: comp_def)
  moreover have "dict_of (map (\<lambda>t. (t_id t, t)) (reg_topics registry)) (t_id t) = Some t"
    using d t by (intro dict_of_distinct) (auto simp: comp_def)
  ultimately show ?thesis by (simp add: topic_order_key_def topic_heading_name_def)
qed

lemma py_sorted_reverse_descending:
  "sorted_wrt (\<lambda>a b. f b \<le> f a) (py_sorted_reverse f xs)"
  by (simp add: descending_iff py_sorted_reverse_sorted)

lemma topic_slides_filter:
  "dict_get (group_slides (reg_slides registry)) t = filter (\<lambda>s. s_topic s = t) (reg_slides registry)"
  by (rule group_slides_get)

lemma py_slice_to_nonneg: "0 \<le> cnt \<Longrightarrow> py_slice_to xs cnt = take (nat cnt) xs"
  by (simp add: py_slice_to_def)

subsection \<open>Topic sections of the full deck\<close>

text \<open>
  Claim C4, as the code has it.  The topic sections of the full deck are the topics that
  carry a slide, each once, ascending in the sort key: of two present topics the one with the
  smaller key comes first.  The key of a declared topic is its \<open>order\<close> and its heading
  its \<open>name\<close>; a topic id without a Topic record has the key 999 and the heading
  made of the id with underscores turned into spaces, in title case.  So an undeclared topic
  comes after every present topic whose key is below 999, and the document is the header
  followed by the topic sections in that order.
\<close>

theorem deck_topic_order:
  "sorted (map (topic_order_key registry) (sorted_topic_ids registry))
   \<and> distinct (sorted_topic_ids registry)
   \<and> set (sorted_topic_ids registry) = s_topic ` set (reg_slides registry)
   \<and> (\<forall>a b. a \<in> set (sorted_topic_ids registry) \<and> b \<in> set (sorted_topic_ids registry)
         \<and> topic_order_key registry a < topic_order_key registry b
         \<longrightarrow> precedes a b (sorted_topic_ids registry))
   \<and> (\<forall>t. distinct (map t_id (reg_topics registry)) \<and> t \<in> set (reg_topics registry)
         \<longrightarrow> topic_order_key registry (t_id t) = t_order t
             \<and> topic_heading_name registry (t_id t) = t_name t)
   \<and> (\<forall>u. u \<notin> t_id ` set (reg_topics registry)
         \<longrightarrow> topic_order_key registry u = 999
             \<and> topic_heading_name registry u = py_title (py_replace (CHR ''_'') (CHR '' '') u))
   \<and> (\<forall>d u. d \<in> set (sorted_topic_ids registry) \<and> u \<in> set (sorted_topic_ids registry)
         \<and> u \<notin> t_id ` set (reg_topics registry) \<and> topic_order_key registry d < 999
         \<longrightarrow> precedes d u (sorted_topic_ids registry))
   \<and> (reg_slides registry \<noteq> []
         \<longrightarrow> build_slides_qmd registry =
             py_join ''\<newline>''
               (slides_header (case reg_title registry of Some t \<Rightarrow> t | None \<Rightarrow> ''Research Figures'')
                @ concat (map (render_topic registry []) (sorted_topic_ids registry))))"
proof -
  let ?ids = "sorted_topic_ids registry"
  let ?key = "topic_order_key registry"
  have asc: "\<forall>a b. a \<in> set ?ids \<and> b \<in> set ?ids \<and> ?key a < ?key b \<longrightarrow> precedes a b ?ids"
    using sorted_precedes [OF sorted_topic_ids_sorted [of registry]] by blast
  have und: "\<forall>d u. d \<in> set ?ids \<and> u \<in> set ?ids
         \<and> u \<notin> t_id ` set (reg_topics registry) \<and> ?key d < 999 \<longrightarrow> precedes d u ?ids"
  proof (intro allI impI)
    fix d u
    assume h: "d \<in> set ?ids \<and> u \<in> set ?ids
         \<and> u \<notin> t_id ` set (reg_topics registry) \<and> ?key d < 999"
    then have "?key u = 999" using undeclared_topic [of u registry] by blast
    with h asc show "precedes d u ?ids" by simp
  qed
  from sorted_topic_ids_sorted [of registry] sorted_topic_ids_set [of registry] asc und
    declared_topic [of registry] undeclared_topic [of _ registry] deck_document [of registry]
  show ?thesis by blast
qed

theorem deck_topic_order_witness:
  "sorted_topic_ids intro_results = [''intro'', ''results'', ''misc_notes'']
   \<and> precedes ''intro'' ''results'' (sorted_topic_ids intro_results)
   \<and> precedes ''results'' ''misc_notes'' (sorted_topic_ids intro_results)
   \<and> topic_order_key intro_results ''results'' = 2
   \<and> topic_heading_name intro_results ''misc_notes'' = ''Misc Notes''"
proof -
  have ids: "sorted_topic_ids intro_results = [''intro'', ''results'', ''misc_notes'']"
    by code_simp
  have k: "topic_order_key intro_results ''intro'' < topic_order_key intro_results ''results''"
    "topic_order_key intro_results ''results'' < 999"
    by code_simp+
  have m: "''intro'' \<in> set (sorted_topic_ids intro_results)"
    "''results'' \<in> set (sorted_topic_ids intro_results)"
    "''misc_notes'' \<in> set (sorted_topic_ids intro_results)"
    unfolding ids by simp_all
  have u: "''misc_notes'' \<notin> t_id ` set (reg_topics intro_results)"
    by code_simp
  have t: "distinct (map t_id (reg_topics intro_results))"
    "\<lparr>t_id = ''results'', t_name = ''Results'', t_order = 2\<rparr> \<in> set (reg_topics intro_results)"
    by (simp_all add: intro_results_def)
  note inst = deck_topic_order [of intro_results]
  from inst k m have p1: "precedes ''intro'' ''results'' (sorted_topic_ids intro_results)"
    by blast
  from inst k m u have p2: "precedes ''results'' ''misc_notes'' (sorted_topic_ids intro_results)"
    by blast
  from inst t have o: "topic_order_key intro_results
      (t_id \<lparr>t_id = ''results'', t_name = ''Results'', t_order = 2\<rparr>)
      = t_order \<lparr>t_id = ''results'', t_name = ''Results'', t_order = 2\<rparr>"
    by blast
  from inst u have h: "topic_heading_name intro_results ''misc_notes''
      = py_title (py_replace (CHR ''_'') (CHR '' '') ''misc_notes'')"
    by blast
  have "py_title (py_replace (CHR ''_'') (CHR '' '') ''misc_notes'') = ''Misc Notes''"
    by code_simp
  with ids p1 p2 o h show ?thesis by simp
qed

text \<open>
  A declared topic of order 1000 comes after an undeclared one: the sentinel 999 does not
  put an undeclared topic after every declared topic.
\<close>

theorem undeclared_topic_before_declared:
  "sorted_topic_ids late_topic = [''misc'', ''late'']
   \<and> ''late'' \<in> t_id ` set (reg_topics late_topic)
   \<and> ''misc'' \<notin> t_id ` set (reg_topics late_topic)
   \<and> \<not> precedes ''late'' ''misc'' (sorted_topic_ids late_topic)"
  by code_simp

subsection \<open>Slides within a topic\<close>

text \<open>
  Claim C5.  The slides of a topic section are the slides of that topic in the registry,
  by creation date descending, and slides of one date keep the order they have in the
  registry; the section is its heading followed by the slides in that order.  The dates
  2024-01-01, 2024-03-01, 2024-02-01 come out as 2024-03-01, 2024-02-01, 2024-01-01.
\<close>

theorem topic_slides_newest_first:
  "sorted_wrt (\<lambda>a b. s_created b \<le> s_created a) (topic_slides registry t)
   \<and> mset (topic_slides registry t) = mset (filter (\<lambda>s. s_topic s = t) (reg_slides registry))
   \<and> (\<forall>d. filter (\<lambda>s. s_created s = d) (topic_slides registry t)
          = filter (\<lambda>s. s_created s = d) (filter (\<lambda>s. s_topic s = t) (reg_slides registry)))
   \<and> render_topic registry [] t =
       [''# '' @ topic_heading_name registry t @ '' '' @ ''{'' @ ''#''
          @ py_replace (CHR ''_'') (CHR ''-'') t @ ''}'', '''']
       @ concat (map (render_deck_slide []) (topic_slides registry t))
   \<and> map s_created (topic_slides three_dates ''results'')
       = [''2024-03-01'', ''2024-02-01'', ''2024-01-01'']"
proof -
  have e: "map s_created (topic_slides three_dates ''results'')
       = [''2024-03-01'', ''2024-02-01'', ''2024-01-01'']"
    by code_simp
  have r: "render_topic registry [] t =
       [''# '' @ topic_heading_name registry t @ '' '' @ ''{'' @ ''#''
          @ py_replace (CHR ''_'') (CHR ''-'') t @ ''}'', '''']
       @ concat (map (render_deck_slide []) (topic_slides registry t))"
    using render_topic_blocks [of registry "[]" t] by simp
  show ?thesis
    unfolding topic_slides_def topic_slides_filter
    using py_sorted_reverse_descending [of s_created] py_sorted_reverse_mset [of s_created]
      py_sorted_reverse_stable [of s_created] e r
    unfolding topic_slides_def topic_slides_filter
    by blast
qed

theorem topic_slides_newest_first_witness:
  "map s_id (topic_slides tied_dates ''results'') = [''b'', ''a'', ''c'']
   \<and> sorted_wrt (\<lambda>a b. s_created b \<le> s_created a) (topic_slides tied_dates ''results'')
   \<and> filter (\<lambda>s. s_created s = ''2024-02-01'') (topic_slides tied_dates ''results'')
       = [example_slide ''a'' ''results'' ''2024-02-01'', example_slide ''c'' ''results'' ''2024-02-01'']"
proof -
  have i: "map s_id (topic_slides tied_dates ''results'') = [''b'', ''a'', ''c'']"
    by code_simp
  have f: "filter (\<lambda>s. s_created s = ''2024-02-01'')
        (filter (\<lambda>s. s_topic s = ''results'') (reg_slides tied_dates))
      = [example_slide ''a'' ''results'' ''2024-02-01'', example_slide ''c'' ''results'' ''2024-02-01'']"
    by (simp add: tied_dates_def example_slide_def)
  from topic_slides_newest_first [of tied_dates "''results''"] i f show ?thesis by simp
qed

subsection \<open>The recent digest\<close>

text \<open>
  Claim C6, as the code has it.  For a count that is not negative the digest holds the
  first \<open>count\<close> slides of the whole registry sorted by creation date descending (a
  stable sort that ignores topics), all of them when the count is at least their number,
  and the document is the header followed by their blocks.  With count 2 over the dates
  2024-01-01, 2024-03-01, 2024-02-01 it holds 2024-03-01 and 2024-02-01.
\<close>

theorem recent_digest:
  "0 \<le> cnt \<Longrightarrow>
   recent_slides registry cnt = take (nat cnt) (py_sorted_reverse s_created (reg_slides registry))
   \<and> sorted_wrt (\<lambda>a b. s_created b \<le> s_created a) (py_sorted_reverse s_created (reg_slides registry))
   \<and> mset (py_sorted_reverse s_created (reg_slides registry)) = mset (reg_slides registry)
   \<and> (\<forall>d. filter (\<lambda>s. s_created s = d) (py_sorted_reverse s_created (reg_slides registry))
          = filter (\<lambda>s. s_created s = d) (reg_slides registry))
   \<and> (int (length (reg_slides registry)) \<le> cnt
        \<longrightarrow> recent_slides registry cnt = py_sorted_reverse s_created (reg_slides registry))
   \<and> (reg_slides registry \<noteq> []
        \<longrightarrow> build_recent_qmd registry cnt =
            py_join ''\<newline>''
              (recent_header @ concat (map (render_recent_slide []) (recent_slides registry cnt))))
   \<and> map s_created (recent_slides three_dates 2) = [''2024-03-01'', ''2024-02-01'']"
proof -
  assume c: "0 \<le> cnt"
  have e: "map s_created (recent_slides three_dates 2) = [''2024-03-01'', ''2024-02-01'']"
    by code_simp
  from c have t: "recent_slides registry cnt
      = take (nat cnt) (py_sorted_reverse s_created (reg_slides registry))"
    by (simp add: recent_slides_def py_slice_to_nonneg)
  have a: "int (length (reg_slides registry)) \<le> cnt
        \<longrightarrow> recent_slides registry cnt = py_sorted_reverse s_created (reg_slides registry)"
    unfolding t by (simp add: py_sorted_reverse_length)
  from t a e py_sorted_reverse_descending [of s_created "reg_slides registry"]
    py_sorted_reverse_mset [of s_created "reg_slides registry"]
    py_sorted_reverse_stable [of s_created _ "reg_slides registry"]
    recent_document [of registry cnt]
  show ?thesis by blast
qed

theorem recent_digest_witness:
  "map s_id (recent_slides tied_dates 2) = [''b'', ''a'']
   \<and> map s_id (recent_slides tied_dates 7) = [''b'', ''a'', ''c'']
   \<and> recent_slides tied_dates 7 = py_sorted_reverse s_created (reg_slides tied_dates)"
proof -
  have i: "map s_id (recent_slides tied_dates 2) = [''b'', ''a'']"
    "map s_id (recent_slides tied_dates 7) = [''b'', ''a'', ''c'']"
    by code_simp+
  have l: "int (length (reg_slides tied_dates)) \<le> 7"
    by (simp add: tied_dates_def)
  have z: "(0::int) \<le> 7" by simp
  from recent_digest [OF z, of tied_dates] l
  have "recent_slides tied_dates 7 = py_sorted_reverse s_created (reg_slides tied_dates)"
    by blast
  with i show ?thesis by blast
qed

text \<open>
  A negative count is a slice from the end: with count \<open>-1\<close> the digest of three slides
  holds two of them, not the first \<open>-1\<close>.
\<close>

theorem negative_count_drops_from_the_end:
  "map s_created (recent_slides three_dates (- 1)) = [''2024-03-01'', ''2024-02-01'']
   \<and> take (nat (- 1)) (py_sorted_reverse s_created (reg_slides three_dates)) = []"
  by code_simp

section \<open>Files, processes and the console\<close>

text \<open>
  The effects of the commands are explicit.  An exception is a value: the process of
  \<open>subprocess.run(..., check=True)\<close> either could not be started (an \<open>OSError\<close> such as
  \<open>FileNotFoundError\<close> when there is no \<open>git\<close> executable) or ran and exited with a status
  and its standard output; a status other than zero raises \<open>CalledProcessError\<close>.
\<close>

datatype py_error = CalledProcessError | OSError | YAMLError

datatype 'a completed = NotStarted | Exited int 'a

definition subprocess_run_check :: "'a completed \<Rightarrow> py_error + 'a" where
  "subprocess_run_check p =
     (case p of
        NotStarted \<Rightarrow> Inl OSError
      | Exited returncode out \<Rightarrow> if returncode \<noteq> 0 then Inl CalledProcessError else Inr out)"

text \<open>
  The part of the world the commands touch: the directory \<open>.figure_history_temp\<close> (absent,
  or present with its regular files by name), the text files at other paths, which paths
  can be written, and the lines printed by \<open>click.echo\<close>.  The output path of a command
  is a path outside \<open>.figure_history_temp\<close>.
\<close>

record world =
  tmp_dir :: "(string \<times> bytes) list option"
  docs :: "string \<Rightarrow> string option"
  writable :: "string \<Rightarrow> bool"
  console :: "string list"

text \<open>A call returns a value or raises; either way it leaves a world behind.\<close>

datatype 'a result = Ok 'a world | Raised py_error world

fun final_world :: "'a result \<Rightarrow> world" where
  "final_world (Ok x w) = w"
| "final_world (Raised e w) = w"

fun raised :: "'a result \<Rightarrow> py_error option" where
  "raised (Ok x w) = None"
| "raised (Raised e w) = Some e"

definition click_echo :: "string \<Rightarrow> world \<Rightarrow> world" where
  "click_echo msg w = w\<lparr>console := console w @ [msg]\<rparr>"

text \<open>\<open>Path(path).write_text(text)\<close> and \<open>open(path).read()\<close> on a text file.\<close>

definition write_text :: "string \<Rightarrow> string \<Rightarrow> world \<Rightarrow> unit result" where
  "write_text path text w =
     (if writable w path then Ok () (w\<lparr>docs := (docs w)(path \<mapsto> text)\<rparr>) else Raised OSError w)"

definition read_text :: "string \<Rightarrow> world \<Rightarrow> string result" where
  "read_text path w = (case docs w path of None \<Rightarrow> Raised OSError w | Some text \<Rightarrow> Ok text w)"

text \<open>The calls on \<open>temp_dir = Path(".figure_history_temp")\<close> and the files in it.\<close>

definition mkdir_exist_ok :: "world \<Rightarrow> world" where
  "mkdir_exist_ok w = (case tmp_dir w of None \<Rightarrow> w\<lparr>tmp_dir := Some []\<rparr> | Some files \<Rightarrow> w)"

definition write_bytes :: "string \<Rightarrow> bytes \<Rightarrow> world \<Rightarrow> unit result" where
  "write_bytes name data w =
     (case tmp_dir w of
        None \<Rightarrow> Raised OSError w
      | Some files \<Rightarrow>
          Ok () (w\<lparr>tmp_dir := Some ((name, data) # filter (\<lambda>f. fst f \<noteq> name) files)\<rparr>))"

definition read_bytes :: "string \<Rightarrow> world \<Rightarrow> bytes result" where
  "read_bytes name w =
     (case tmp_dir w of
        None \<Rightarrow> Raised OSError w
      | Some files \<Rightarrow>
          (case map_of files name of None \<Rightarrow> Raised OSError w | Some data \<Rightarrow> Ok data w))"

text \<open>A directory lists each of its names once.\<close>

definition iterdir :: "world \<Rightarrow> string list" where
  "iterdir w = (case tmp_dir w of None \<Rightarrow> [] | Some files \<Rightarrow> remdups (map fst files))"

definition unlink :: "string \<Rightarrow> world \<Rightarrow> unit result" where
  "unlink name w =
     (case tmp_dir w of
        None \<Rightarrow> Raised OSError w
      | Some files \<Rightarrow>
          if name \<in> fst ` set files
          then Ok () (w\<lparr>tmp_dir := Some (filter (\<lambda>f. fst f \<noteq> name) files)\<rparr>)
          else Raised OSError w)"

definition rmdir :: "world \<Rightarrow> unit result" where
  "rmdir w =
     (case tmp_dir w of
        None \<Rightarrow> Raised OSError w
      | Some files \<Rightarrow> if files = [] then Ok () (w\<lparr>tmp_dir := None\<rparr>) else Raised OSError w)"

subsection \<open>The build command\<close>

text \<open>
  \<open>load_registry\<close> reads \<open>slides.yaml\<close>; the parser \<open>yaml.safe_load\<close> is a parameter,
  \<open>None\<close> when it rejects the text.
\<close>

definition load_registry :: "(string \<Rightarrow> registry option) \<Rightarrow> world \<Rightarrow> registry result" where
  "load_registry yaml_safe_load w =
     (case read_text ''slides.yaml'' w of
        Raised e w' \<Rightarrow> Raised e w'
      | Ok text w' \<Rightarrow>
          (case yaml_safe_load text of None \<Rightarrow> Raised YAMLError w' | Some registry \<Rightarrow> Ok registry w'))"
definition build_styles_css :: string where
  \<open>build_styles_css =
     ''.reveal,\<newline>'' @
     ''.reveal h1,\<newline>'' @
     ''.reveal h2,\<newline>'' @
     ''.reveal h3,\<newline>'' @
     ''.reveal p,\<newline>'' @
     ''.reveal li,\<newline>'' @
     ''.reveal .slides {\<newline>'' @
     ''    font-family: Arial, sans-serif !important;\<newline>'' @
     ''}\<newline>'' @
     ''\<newline>'' @
     ''/* Vertically center slide content when space allows */\<newline>'' @
     ''.reveal .slides section {\<newline>'' @
     ''    display: flex !important;\<newline>'' @
     ''    flex-direction: column;\<newline>'' @
     ''    justify-content: center;\<newline>'' @
     ''}\<newline>'' @
     ''\<newline>'' @
     ''/* Smaller headlines */\<newline>'' @
     ''.reveal h1 {\<newline>'' @
     ''    font-size: 1.4em;\<newline>'' @
     ''    margin-bottom: 0.3em;\<newline>'' @
     ''}\<newline>'' @
     ''\<newline>'' @
     ''.reveal h2 {\<newline>'' @
     ''    font-size: 1.1em;\<newline>'' @
     ''    margin-bottom: 0.2em;\<newline>'' @
     ''}\<newline>'' @
     ''\<newline>'' @
     ''/* Center all images */\<newline>'' @
     ''.reveal img {\<newline>'' @
     ''    max-height: 65vh;\<newline>'' @
     ''    width: auto;\<newline>'' @
     ''    display: block;\<newline>'' @
     ''    margin: 0 auto;\<newline>'' @
     ''}\<newline>'' @
     ''\<newline>'' @
     ''.reveal figure {\<newline>'' @
     ''    margin: 0 auto;\<newline>'' @
     ''}\<newline>'' @
     ''\<newline>'' @
     ''/* Figure captions */\<newline>'' @
     ''.reveal .caption {\<newline>'' @
     ''    font-size: 0.3em;\<newline>'' @
     ''    color: #333;\<newline>'' @
     ''    text-align: left;\<newline>'' @
     ''    margin-top: 0.5em;\<newline>'' @
     ''    max-width: 95%;\<newline>'' @
     ''    margin-left: auto;\<newline>'' @
     ''    margin-right: auto;\<newline>'' @
     ''    line-height: 1.3;\<newline>'' @
     ''}\<newline>'' @
     ''\<newline>'' @
     ''/* Scrollable table of contents */\<newline>'' @
     ''.reveal .slide-menu-wrapper {\<newline>'' @
     ''    overflow-y: auto;\<newline>'' @
     ''}\<newline>'' @
     ''\<newline>'' @
     ''#TOC {\<newline>'' @
     ''    max-height: 80vh;\<newline>'' @
     ''    overflow-y: auto;\<newline>'' @
     ''}\<newline>''\<close>

definition build_slides :: "(string \<Rightarrow> registry option) \<Rightarrow> int \<Rightarrow> world \<Rightarrow> unit result" where
  "build_slides yaml_safe_load recent_count w =
     (case load_registry yaml_safe_load w of
        Raised e w \<Rightarrow> Raised e w
      | Ok registry w \<Rightarrow>
     (case write_text ''slides.qmd'' (build_slides_qmd registry) w of
        Raised e w \<Rightarrow> Raised e w
      | Ok u w \<Rightarrow>
     (case write_text ''recent.qmd'' (build_recent_qmd registry recent_count)
             (click_echo ''Generated slides.qmd'' w) of
        Raised e w \<Rightarrow> Raised e w
      | Ok u w \<Rightarrow>
     (case write_text ''styles.css'' build_styles_css (click_echo ''Generated recent.qmd'' w) of
        Raised e w \<Rightarrow> Raised e w
      | Ok u w \<Rightarrow>
          Ok ()
            (click_echo
               (''Build complete: '' @ str_nat (length (reg_slides registry)) @ '' slides across ''
                  @ str_nat (length (reg_topics registry)) @ '' topics'')
               (click_echo ''Generated styles.css'' w))))))"

section \<open>Version history and comparison (history.py)\<close>

subsection \<open>The history of a figure\<close>

text \<open>
  The backing revision control: \<open>git log --format=%H|%ai|%s --follow -- path\<close> by the path,
  and \<open>git show commit:path\<close> by that argument.
\<close>

record git =
  git_log :: "string \<Rightarrow> string completed"
  git_show :: "string \<Rightarrow> bytes completed"

record revision =
  r_commit :: string
  r_date :: string
  r_message :: string

text \<open>\<open>s.split(sep)\<close> and \<open>s.split(sep, maxsplit)\<close> for a one-character separator.\<close>

fun py_split :: "char \<Rightarrow> string \<Rightarrow> string list" where
  "py_split sep [] = [[]]"
| "py_split sep (c # cs) =
     (if c = sep then [] # py_split sep cs
      else (case py_split sep cs of [] \<Rightarrow> [[c]] | p # ps \<Rightarrow> (c # p) # ps))"

fun py_split_max :: "char \<Rightarrow> nat \<Rightarrow> string \<Rightarrow> string list" where
  "py_split_max sep 0 s = [s]"
| "py_split_max sep (Suc n) [] = [[]]"
| "py_split_max sep (Suc n) (c # cs) =
     (if c = sep then [] # py_split_max sep n cs
      else (case py_split_max sep (Suc n) cs of [] \<Rightarrow> [[c]] | p # ps \<Rightarrow> (c # p) # ps))"

text \<open>The body of the loop over the lines of the output.\<close>

definition history_step :: "revision list \<Rightarrow> string \<Rightarrow> revision list" where
  "history_step history line =
     (if line = [] then history
      else (let parts = py_split_max (CHR ''|'') 2 line
            in if length parts = 3
               then history @ [\<lparr>r_commit = parts ! 0, r_date = parts ! 1, r_message = parts ! 2\<rparr>]
               else history))"

definition get_figure_history :: "git \<Rightarrow> string \<Rightarrow> py_error + revision list" where
  "get_figure_history g figure_path =
     (case subprocess_run_check (git_log g figure_path) of
        Inl CalledProcessError \<Rightarrow> Inr []
      | Inl e \<Rightarrow> Inl e
      | Inr out \<Rightarrow> Inr (foldl history_step [] (py_split (CHR ''\<newline>'') (py_strip out))))"

subsection \<open>Extraction and the comparison page\<close>

definition extract_figure_version :: "git \<Rightarrow> string \<Rightarrow> string \<Rightarrow> string \<Rightarrow> world \<Rightarrow> bool result" where
  "extract_figure_version g figure_path commit output_path w =
     (case subprocess_run_check (git_show g (commit @ '':'' @ figure_path)) of
        Inr out \<Rightarrow>
          (case write_bytes output_path out w of
             Raised e w' \<Rightarrow> Raised e w'
           | Ok u w' \<Rightarrow> Ok True w')
      | Inl CalledProcessError \<Rightarrow> Ok False w
      | Inl e \<Rightarrow> Raised e w)"

text \<open>\<open>base64.b64encode(data).decode()\<close>: the standard alphabet, padded with \<open>=\<close>.\<close>

definition b64_char :: "nat \<Rightarrow> char" where
  "b64_char n = ''ABCDEFGHIJKLMNOPQRSTUVWXYZabcdefghijklmnopqrstuvwxyz0123456789+/'' ! n"

fun b64encode :: "bytes \<Rightarrow> string" where
  "b64encode [] = []"
| "b64encode [a] =
     (let x = (of_char a :: nat)
      in [b64_char (x div 4), b64_char ((x mod 4) * 16), CHR ''='', CHR ''=''])"
| "b64encode [a, b] =
     (let x = (of_char a :: nat); y = (of_char b :: nat)
      in [b64_char (x div 4), b64_char ((x mod 4) * 16 + y div 16), b64_char ((y mod 16) * 4),
          CHR ''=''])"
| "b64encode (a # b # c # rest) =
     (let x = (of_char a :: nat); y = (of_char b :: nat); z = (of_char c :: nat)
      in [b64_char (x div 4), b64_char ((x mod 4) * 16 + y div 16),
          b64_char ((y mod 16) * 4 + z div 64), b64_char (z mod 64)]) @ b64encode rest"

record version =
  v_index :: nat
  v_commit :: string
  v_date :: string
  v_message :: string
  v_data :: string

definition page_open :: string where
  \<open>page_open =
     ''<!DOCTYPE html>\<newline>'' @
     ''<html>\<newline>'' @
     ''<head>\<newline>'' @
     ''    <title>Figure History: ''\<close>

definition page_style :: string where
  \<open>page_style =
     ''</title>\<newline>'' @
     ''    <style>\<newline>'' @
     ''        body {\<newline>'' @
     ''            font-family: -apple-system, BlinkMacSystemFont, 'Segoe UI', Roboto, sans-serif;\<newline>'' @
     ''            max-width: 1400px;\<newline>'' @
     ''            margin: 0 auto;\<newline>'' @
     ''            padding: 20px;\<newline>'' @
     ''            background: #f5f5f5;\<newline>'' @
     ''        }\<newline>'' @
     ''        h1 {\<newline>'' @
     ''            color: #333;\<newline>'' @
     ''            border-bottom: 2px solid #007acc;\<newline>'' @
     ''            padding-bottom: 10px;\<newline>'' @
     ''        }\<newline>'' @
     ''        .versions {\<newline>'' @
     ''            display: grid;\<newline>'' @
     ''            grid-template-columns: repeat(auto-fit, minmax(400px, 1fr));\<newline>'' @
     ''            gap: 20px;\<newline>'' @
     ''        }\<newline>'' @
     ''        .version-card {\<newline>'' @
     ''            background: white;\<newline>'' @
     ''            border-radius: 8px;\<newline>'' @
     ''            padding: 15px;\<newline>'' @
     ''            box-shadow: 0 2px 4px rgba(0,0,0,0.1);\<newline>'' @
     ''        }\<newline>'' @
     ''        .version-card h3 {\<newline>'' @
     ''            margin-top: 0;\<newline>'' @
     ''            color: #007acc;\<newline>'' @
     ''        }\<newline>'' @
     ''        .meta {\<newline>'' @
     ''            font-size: 0.9em;\<newline>'' @
     ''            color: #666;\<newline>'' @
     ''        }\<newline>'' @
     ''        .commit {\<newline>'' @
     ''            font-family: monospace;\<newline>'' @
     ''            background: #f0f0f0;\<newline>'' @
     ''            padding: 2px 6px;\<newline>'' @
     ''            border-radius: 3px;\<newline>'' @
     ''        }\<newline>'' @
     ''        .date {\<newline>'' @
     ''            margin-left: 10px;\<newline>'' @
     ''        }\<newline>'' @
     ''        .message {\<newline>'' @
     ''            font-style: italic;\<newline>'' @
     ''            color: #555;\<newline>'' @
     ''        }\<newline>'' @
     ''        .version-card img {\<newline>'' @
     ''            max-width: 100%;\<newline>'' @
     ''            border: 1px solid #ddd;\<newline>'' @
     ''            border-radius: 4px;\<newline>'' @
     ''        }\<newline>'' @
     ''    </style>\<newline>'' @
     ''</head>\<newline>'' @
     ''<body>\<newline>'' @
     ''    <h1>Figure History: ''\<close>

definition page_heading_end :: string where
  \<open>page_heading_end =
     ''</h1>\<newline>'' @
     ''    <p>''\<close>

definition page_count_end :: string where
  \<open>page_count_end =
     '' versions found (newest first)</p>\<newline>'' @
     ''    <div class="versions">\<newline>'' @
     ''        ''\<close>

definition page_close :: string where
  \<open>page_close =
     ''\<newline>'' @
     ''    </div>\<newline>'' @
     ''</body>\<newline>'' @
     ''</html>\<newline>''\<close>

definition version_card :: "version \<Rightarrow> string" where
  \<open>version_card v =
       ''\<newline>'' @
       ''        <div class="version-card">\<newline>'' @
       ''            <h3>Version '' @
       str_nat (v_index v) @
       ''</h3>\<newline>'' @
       ''            <p class="meta">\<newline>'' @
       ''                <span class="commit">'' @
       v_commit v @
       ''</span>\<newline>'' @
       ''                <span class="date">'' @
       v_date v @
       ''</span>\<newline>'' @
       ''            </p>\<newline>'' @
       ''            <p class="message">'' @
       v_message v @
       ''</p>\<newline>'' @
       ''            <img src="data:image/png;base64,'' @
       v_data v @
       ''" alt="Version '' @
       str_nat (v_index v) @
       ''">\<newline>'' @
       ''        </div>\<newline>'' @
       ''        ''\<close>

definition generate_comparison_html :: "string \<Rightarrow> version list \<Rightarrow> string" where
  "generate_comparison_html figure_path versions =
     (let version_cards = map version_card versions;
          html_parts =
            [page_open, figure_path, page_style, figure_path, page_heading_end,
             str_nat (length versions), page_count_end, concat version_cards, page_close]
      in concat html_parts)"

text \<open>
  The extraction loop of \<open>generate_comparison\<close> over \<open>enumerate(history)\<close>, with the list
  \<open>versions\<close> it appends to.
\<close>

fun extract_versions ::
  "git \<Rightarrow> string \<Rightarrow> (nat \<times> revision) list \<Rightarrow> version list \<Rightarrow> world \<Rightarrow> version list result" where
  "extract_versions g figure_path [] versions w = Ok versions w"
| "extract_versions g figure_path ((i, entry) # rest) versions w =
     (let version_path = ''v'' @ str_nat (i + 1) @ ''_'' @ take 8 (r_commit entry) @ ''.png''
      in case extract_figure_version g figure_path (r_commit entry) version_path w of
           Raised e w' \<Rightarrow> Raised e w'
         | Ok False w' \<Rightarrow> extract_versions g figure_path rest versions w'
         | Ok True w' \<Rightarrow>
             (case read_bytes version_path w' of
                Raised e w'' \<Rightarrow> Raised e w''
              | Ok content w'' \<Rightarrow>
                  extract_versions g figure_path rest
                    (versions @
                      [\<lparr>v_index = i + 1, v_commit = take 8 (r_commit entry), v_date = r_date entry,
                        v_message = r_message entry, v_data = b64encode content\<rparr>])
                    w''))"

text \<open>The loop \<open>for f in temp_dir.iterdir(): f.unlink()\<close>.\<close>

fun unlink_all :: "string list \<Rightarrow> world \<Rightarrow> unit result" where
  "unlink_all [] w = Ok () w"
| "unlink_all (f # fs) w =
     (case unlink f w of Raised e w' \<Rightarrow> Raised e w' | Ok u w' \<Rightarrow> unlink_all fs w')"

definition generate_comparison :: "git \<Rightarrow> string \<Rightarrow> string \<Rightarrow> world \<Rightarrow> unit result" where
  "generate_comparison g figure_path output w =
     (case get_figure_history g figure_path of
        Inl e \<Rightarrow> Raised e w
      | Inr history \<Rightarrow>
          if history = [] then Ok () (click_echo (''No git history found for '' @ figure_path) w)
          else if length history < 2
          then Ok () (click_echo ''Only one version found. Nothing to compare.'' w)
          else
     (case extract_versions g figure_path (enumerate 0 history) [] (mkdir_exist_ok w) of
        Raised e w \<Rightarrow> Raised e w
      | Ok versions w \<Rightarrow>
     (case write_text output (generate_comparison_html figure_path versions) w of
        Raised e w \<Rightarrow> Raised e w
      | Ok u w \<Rightarrow>
     (case unlink_all (iterdir w) w of
        Raised e w \<Rightarrow> Raised e w
      | Ok u w \<Rightarrow>
     (case rmdir w of
        Raised e w \<Rightarrow> Raised e w
      | Ok u w \<Rightarrow>
          Ok ()
            (click_echo (''Showing '' @ str_nat (length versions) @ '' versions'')
               (click_echo (''Generated comparison: '' @ output) w)))))))"

subsection \<open>Specification-side notions and examples\<close>

text \<open>
  A line of the log read the way the specification words it: the text before the first
  pipe, the text between the first and the second pipe, and everything after the second
  pipe; a line with fewer than two pipes has no three fields.
\<close>

definition parse_line :: "string \<Rightarrow> revision option" where
  "parse_line line =
     (if 2 \<le> length (filter (\<lambda>c. c = CHR ''|'') line)
      then Some \<lparr>r_commit = takeWhile (\<lambda>c. c \<noteq> CHR ''|'') line,
                 r_date = takeWhile (\<lambda>c. c \<noteq> CHR ''|'') (tl (dropWhile (\<lambda>c. c \<noteq> CHR ''|'') line)),
                 r_message = tl (dropWhile (\<lambda>c. c \<noteq> CHR ''|'')
                                   (tl (dropWhile (\<lambda>c. c \<noteq> CHR ''|'') line)))\<rparr>
      else None)"

text \<open>
  The content that \<open>git show\<close> returns for a revision, the card expected for the
  revision at position \<open>i\<close> of the history (index \<open>i + 1\<close>, the first eight characters
  of the revision id, the timestamp, the subject, the content in base64), and the card or
  none when the extraction may fail.
\<close>

definition shown :: "git \<Rightarrow> string \<Rightarrow> revision \<Rightarrow> bytes" where
  "shown g figure_path r =
     (case git_show g (r_commit r @ '':'' @ figure_path) of
        NotStarted \<Rightarrow> []
      | Exited rc content \<Rightarrow> content)"

definition version_of :: "git \<Rightarrow> string \<Rightarrow> nat \<times> revision \<Rightarrow> version" where
  "version_of g figure_path ir =
     \<lparr>v_index = fst ir + 1, v_commit = take 8 (r_commit (snd ir)), v_date = r_date (snd ir),
      v_message = r_message (snd ir), v_data = b64encode (shown g figure_path (snd ir))\<rparr>"

definition extracted :: "git \<Rightarrow> string \<Rightarrow> nat \<times> revision \<Rightarrow> version option" where
  "extracted g figure_path ir =
     (case git_show g (r_commit (snd ir) @ '':'' @ figure_path) of
        NotStarted \<Rightarrow> None
      | Exited rc content \<Rightarrow> if rc = 0 then Some (version_of g figure_path ir) else None)"

text \<open>Repositories, worlds and a registry file used as examples.\<close>

definition two_revisions :: git where
  "two_revisions =
     \<lparr>git_log = (\<lambda>p. if p = ''figures/plot.png''
          then Exited 0 (''aaaaaaaaaa1111|2024-01-02 10:00:00 +0000|Second | draft\<newline>'' @
                         ''not a record\<newline>'' @
                         ''bbbbbbbbbb2222|2024-01-01 09:00:00 +0000|First\<newline>'')
          else Exited 128 ''''),
      git_show = (\<lambda>a. if a = ''aaaaaaaaaa1111:figures/plot.png'' then Exited 0 ''new''
          else if a = ''bbbbbbbbbb2222:figures/plot.png'' then Exited 0 ''old''
          else Exited 128 '''')\<rparr>"


definition two_revisions_lost :: git where
  "two_revisions_lost = two_revisions\<lparr>git_show := (\<lambda>a. Exited 128 '''')\<rparr>"



definition empty_world :: world where
  "empty_world = \<lparr>tmp_dir = None, docs = (\<lambda>p. None), writable = (\<lambda>p. p \<noteq> ''missing/out.html''),
     console = []\<rparr>"

definition registry_file :: world where
  "registry_file =
     \<lparr>tmp_dir = None, docs = (\<lambda>p. if p = ''slides.yaml'' then Some ''title: Demo'' else None),
      writable = (\<lambda>p. True), console = []\<rparr>"

definition demo_loader :: "string \<Rightarrow> registry option" where
  "demo_loader text = (if text = ''title: Demo'' then Some tied_dates else None)"

subsection \<open>Parsing, extraction and cleanup\<close>

lemma py_split_max_step:
  "py_split_max sep (Suc n) s =
     (if sep \<in> set s
      then takeWhile (\<lambda>c. c \<noteq> sep) s # py_split_max sep n (tl (dropWhile (\<lambda>c. c \<noteq> sep) s))
      else [s])"
  by (induction s) auto

lemma count_sep_step:
  "sep \<in> set s \<Longrightarrow>
   length (filter (\<lambda>c. c = sep) s)
     = Suc (length (filter (\<lambda>c. c = sep) (tl (dropWhile (\<lambda>c. c \<noteq> sep) s))))"
  by (induction s) auto

lemma count_sep_zero: "sep \<notin> set s \<Longrightarrow> length (filter (\<lambda>c. c = sep) s) = 0"
  by (induction s) auto

lemma split_two:
  "py_split_max sep 2 s =
     (if sep \<notin> set s then [s]
      else if sep \<notin> set (tl (dropWhile (\<lambda>c. c \<noteq> sep) s))
      then [takeWhile (\<lambda>c. c \<noteq> sep) s, tl (dropWhile (\<lambda>c. c \<noteq> sep) s)]
      else [takeWhile (\<lambda>c. c \<noteq> sep) s,
            takeWhile (\<lambda>c. c \<noteq> sep) (tl (dropWhile (\<lambda>c. c \<noteq> sep) s)),
            tl (dropWhile (\<lambda>c. c \<noteq> sep) (tl (dropWhile (\<lambda>c. c \<noteq> sep) s)))])"
proof -
  have two: "(2::nat) = Suc (Suc 0)" by simp
  show ?thesis
    unfolding two
    by (simp add: py_split_max_step [of sep "Suc 0"] py_split_max_step [of sep 0])
qed

lemma count_two:
  "(2 \<le> length (filter (\<lambda>c. c = sep) s))
     = (sep \<in> set s \<and> sep \<in> set (tl (dropWhile (\<lambda>c. c \<noteq> sep) s)))"
proof (cases "sep \<in> set s")
  case False
  then show ?thesis by (simp add: count_sep_zero)
next
  case True
  show ?thesis
  proof (cases "sep \<in> set (tl (dropWhile (\<lambda>c. c \<noteq> sep) s))")
    case False
    with True show ?thesis
      by (simp add: count_sep_step [OF True] count_sep_zero)
  next
    case t: True
    with True show ?thesis
      by (simp add: count_sep_step [OF True] count_sep_step [OF t])
  qed
qed

lemma parse_line_split:
  "parse_line line =
     (if length (py_split_max (CHR ''|'') 2 line) = 3
      then Some \<lparr>r_commit = py_split_max (CHR ''|'') 2 line ! 0,
                 r_date = py_split_max (CHR ''|'') 2 line ! 1,
                 r_message = py_split_max (CHR ''|'') 2 line ! 2\<rparr>
      else None)"
  unfolding parse_line_def count_two split_two by simp

lemma history_step_parse:
  "history_step history line = (case parse_line line of None \<Rightarrow> history | Some r \<Rightarrow> history @ [r])"
proof (cases "line = []")
  case True
  then show ?thesis by (simp add: history_step_def parse_line_def)
next
  case False
  then show ?thesis by (simp add: history_step_def parse_line_split Let_def)
qed

lemma foldl_history_step:
  "foldl history_step history lines = history @ List.map_filter parse_line lines"
proof (induction lines arbitrary: history)
  case Nil
  show ?case by (simp add: map_filter_simps)
next
  case (Cons l ls)
  have "foldl history_step history (l # ls) = foldl history_step (history_step history l) ls"
    by simp
  also have "\<dots> = history_step history l @ List.map_filter parse_line ls"
    by (rule Cons.IH)
  finally show ?case
    by (cases "parse_line l") (simp_all add: history_step_parse [of history l] map_filter_simps)
qed

lemma get_figure_history_ok:
  "git_log g p = Exited 0 out \<Longrightarrow>
   get_figure_history g p = Inr (List.map_filter parse_line (py_split (CHR ''\<newline>'') (py_strip out)))"
  by (simp add: get_figure_history_def subprocess_run_check_def foldl_history_step)


lemma get_figure_history_not_started:
  "git_log g p = NotStarted \<Longrightarrow> get_figure_history g p = Inl OSError"
  by (simp add: get_figure_history_def subprocess_run_check_def)



lemma extract_success:
  "git_show g (c @ '':'' @ p) = Exited 0 content \<Longrightarrow> tmp_dir w = Some files \<Longrightarrow>
   extract_figure_version g p c name w
     = Ok True (w\<lparr>tmp_dir := Some ((name, content) # filter (\<lambda>f. fst f \<noteq> name) files)\<rparr>)"
  by (simp add: extract_figure_version_def subprocess_run_check_def write_bytes_def)

lemma extract_failure:
  "git_show g (c @ '':'' @ p) = Exited rc content \<Longrightarrow> rc \<noteq> 0 \<Longrightarrow>
   extract_figure_version g p c name w = Ok False w"
  by (simp add: extract_figure_version_def subprocess_run_check_def)

lemma read_after_write:
  "read_bytes name (w\<lparr>tmp_dir := Some ((name, content) # files)\<rparr>)
     = Ok content (w\<lparr>tmp_dir := Some ((name, content) # files)\<rparr>)"
  by (simp add: read_bytes_def)

lemma extract_versions_result:
  "tmp_dir w \<noteq> None \<Longrightarrow>
   \<forall>ir \<in> set irs. git_show g (r_commit (snd ir) @ '':'' @ p) \<noteq> NotStarted \<Longrightarrow>
   \<exists>w'. extract_versions g p irs vs w = Ok (vs @ List.map_filter (extracted g p) irs) w'
        \<and> tmp_dir w' \<noteq> None \<and> docs w' = docs w \<and> writable w' = writable w
        \<and> console w' = console w"
proof (induction irs arbitrary: vs w)
  case Nil
  then show ?case by (simp add: map_filter_simps)
next
  case (Cons ir irs)
  obtain i entry where ir: "ir = (i, entry)" by (cases ir)
  from Cons.prems obtain files where files: "tmp_dir w = Some files" by auto
  from Cons.prems ir obtain rc content
    where sh: "git_show g (r_commit entry @ '':'' @ p) = Exited rc content"
    by (cases "git_show g (r_commit entry @ '':'' @ p)") auto
  from Cons.prems have rest: "\<forall>ir \<in> set irs. git_show g (r_commit (snd ir) @ '':'' @ p) \<noteq> NotStarted"
    by simp
  let ?name = "''v'' @ str_nat (i + 1) @ ''_'' @ take 8 (r_commit entry) @ ''.png''"
  show ?case
  proof (cases "rc = 0")
    case True
    let ?w1 = "w\<lparr>tmp_dir := Some ((?name, content) # filter (\<lambda>f. fst f \<noteq> ?name) files)\<rparr>"
    let ?v = "\<lparr>v_index = i + 1, v_commit = take 8 (r_commit entry), v_date = r_date entry,
                v_message = r_message entry, v_data = b64encode content\<rparr>"
    have e: "extract_figure_version g p (r_commit entry) ?name w = Ok True ?w1"
      using sh True files by (simp add: extract_success)
    have r: "read_bytes ?name ?w1 = Ok content ?w1"
      by (rule read_after_write)
    have step: "extract_versions g p (ir # irs) vs w = extract_versions g p irs (vs @ [?v]) ?w1"
      using e r unfolding ir by (simp add: Let_def)
    have x: "extracted g p ir = Some ?v"
      using sh True by (simp add: extracted_def version_of_def shown_def ir)
    have "tmp_dir ?w1 \<noteq> None" by simp
    from Cons.IH [OF this rest, of "vs @ [?v]"] obtain w' where
      "extract_versions g p irs (vs @ [?v]) ?w1 = Ok ((vs @ [?v]) @ List.map_filter (extracted g p) irs) w'"
      "tmp_dir w' \<noteq> None" "docs w' = docs ?w1" "writable w' = writable ?w1" "console w' = console ?w1"
      by blast
    with step x show ?thesis by (simp add: map_filter_simps)
  next
    case False
    have e: "extract_figure_version g p (r_commit entry) ?name w = Ok False w"
      using sh False by (simp add: extract_failure)
    have step: "extract_versions g p (ir # irs) vs w = extract_versions g p irs vs w"
      using e unfolding ir by (simp add: Let_def)
    have x: "extracted g p ir = None"
      using sh False by (simp add: extracted_def ir)
    from Cons.IH [OF Cons.prems(1) rest, of vs] step x show ?thesis
      by (simp add: map_filter_simps)
  qed
qed

lemma unlink_all_result:
  "tmp_dir w = Some files \<Longrightarrow> distinct names \<Longrightarrow> set names \<subseteq> fst ` set files \<Longrightarrow>
   unlink_all names w = Ok () (w\<lparr>tmp_dir := Some (filter (\<lambda>f. fst f \<notin> set names) files)\<rparr>)"
proof (induction names arbitrary: w files)
  case Nil
  then show ?case by simp
next
  case (Cons n ns)
  let ?w1 = "w\<lparr>tmp_dir := Some (filter (\<lambda>f. fst f \<noteq> n) files)\<rparr>"
  from Cons.prems have u: "unlink n w = Ok () ?w1"
    by (simp add: unlink_def)
  have t: "tmp_dir ?w1 = Some (filter (\<lambda>f. fst f \<noteq> n) files)" by simp
  from Cons.prems have d: "distinct ns" by simp
  from Cons.prems have s: "set ns \<subseteq> fst ` set (filter (\<lambda>f. fst f \<noteq> n) files)"
    by force
  have f: "filter (\<lambda>f. fst f \<notin> set ns) (filter (\<lambda>f. fst f \<noteq> n) files)
      = filter (\<lambda>f. fst f \<notin> set (n # ns)) files"
    by (induction files) auto
  from Cons.IH [OF t d s] u f show ?case by simp
qed

lemma cleanup_result:
  "tmp_dir w = Some files \<Longrightarrow>
   unlink_all (iterdir w) w = Ok () (w\<lparr>tmp_dir := Some []\<rparr>)
   \<and> rmdir (w\<lparr>tmp_dir := Some []\<rparr>) = Ok () (w\<lparr>tmp_dir := None\<rparr>)"
proof -
  assume t: "tmp_dir w = Some files"
  have "filter (\<lambda>f. fst f \<notin> set (remdups (map fst files))) files = []"
    by (induction files) auto
  with unlink_all_result [OF t, of "remdups (map fst files)"] t
  show ?thesis by (simp add: iterdir_def rmdir_def)
qed



lemma generate_comparison_result:
  assumes h: "get_figure_history g p = Inr h" and l: "2 \<le> length h"
    and ns: "\<forall>r \<in> set h. git_show g (r_commit r @ '':'' @ p) \<noteq> NotStarted"
    and wr: "writable w out"
  shows "\<exists>w'. generate_comparison g p out w = Ok () w'
     \<and> tmp_dir w' = None
     \<and> docs w' = (docs w)(out \<mapsto>
          generate_comparison_html p (List.map_filter (extracted g p) (enumerate 0 h)))
     \<and> console w' = console w @
          [''Generated comparison: '' @ out,
           ''Showing '' @ str_nat (length (List.map_filter (extracted g p) (enumerate 0 h)))
             @ '' versions'']"
proof -
  let ?vs = "List.map_filter (extracted g p) (enumerate 0 h)"
  from l have ne: "h \<noteq> []" "\<not> length h < 2" by auto
  have m: "tmp_dir (mkdir_exist_ok w) \<noteq> None" "docs (mkdir_exist_ok w) = docs w"
    "writable (mkdir_exist_ok w) = writable w" "console (mkdir_exist_ok w) = console w"
    by (simp_all add: mkdir_exist_ok_def split: option.splits)
  from ns have "\<forall>ir \<in> set (enumerate 0 h). git_show g (r_commit (snd ir) @ '':'' @ p) \<noteq> NotStarted"
    by (auto simp: in_set_enumerate_eq)
  from extract_versions_result [OF m(1) this, of "[]"] m obtain w1 where
    e: "extract_versions g p (enumerate 0 h) [] (mkdir_exist_ok w) = Ok ?vs w1"
    and w1: "tmp_dir w1 \<noteq> None" "docs w1 = docs w" "writable w1 = writable w" "console w1 = console w"
    by auto
  let ?w2 = "w1\<lparr>docs := (docs w1)(out \<mapsto> generate_comparison_html p ?vs)\<rparr>"
  have wt: "write_text out (generate_comparison_html p ?vs) w1 = Ok () ?w2"
    using wr w1 by (simp add: write_text_def)
  from w1 obtain files where "tmp_dir ?w2 = Some files" by auto
  from cleanup_result [OF this] have
    c: "unlink_all (iterdir ?w2) ?w2 = Ok () (?w2\<lparr>tmp_dir := Some []\<rparr>)"
    and r: "rmdir (?w2\<lparr>tmp_dir := Some []\<rparr>) = Ok () (?w2\<lparr>tmp_dir := None\<rparr>)"
    by blast+
  have "generate_comparison g p out w =
      Ok () (click_echo (''Showing '' @ str_nat (length ?vs) @ '' versions'')
               (click_echo (''Generated comparison: '' @ out) (?w2\<lparr>tmp_dir := None\<rparr>)))"
    unfolding generate_comparison_def h using ne
    by (simp add: e wt c r)
  with w1 show ?thesis by (simp add: click_echo_def)
qed

lemma unit_result: "raised r = None \<Longrightarrow> r = Ok () (final_world r)"
  by (cases r) simp_all


lemma map_filter_none:
  "\<forall>x \<in> set xs. f x = None \<Longrightarrow> List.map_filter f xs = []"
  by (induction xs) (simp_all add: map_filter_simps)

lemma enumerate_snd: "ir \<in> set (enumerate 0 h) \<Longrightarrow> snd ir \<in> set h"
proof -
  assume "ir \<in> set (enumerate 0 h)"
  then have "fst ir < length h" "h ! fst ir = snd ir"
    by (auto simp: in_set_enumerate_eq)
  then show ?thesis using nth_mem [of "fst ir" h] by simp
qed


lemma extracted_failure:
  "git_show g (r_commit (snd ir) @ '':'' @ p) = Exited rc content \<Longrightarrow> rc \<noteq> 0 \<Longrightarrow>
   extracted g p ir = None"
  by (simp add: extracted_def)


lemma comparison_page:
  "generate_comparison_html p vs =
     page_open @ p @ page_style @ p @ page_heading_end @ str_nat (length vs) @ page_count_end
       @ concat (map version_card vs) @ page_close"
  by (simp add: generate_comparison_html_def)

lemma str_nat_zero: "str_nat 0 = ''0''"
  by code_simp

lemma build_slides_result:
  "build_slides yaml_safe_load n w = Ok () w1 \<Longrightarrow>
   \<exists>text registry. docs w ''slides.yaml'' = Some text \<and> yaml_safe_load text = Some registry
     \<and> writable w ''slides.qmd'' \<and> writable w ''recent.qmd'' \<and> writable w ''styles.css''
     \<and> writable w1 = writable w
     \<and> docs w1 = (docs w)(''slides.qmd'' \<mapsto> build_slides_qmd registry,
                           ''recent.qmd'' \<mapsto> build_recent_qmd registry n,
                           ''styles.css'' \<mapsto> build_styles_css)"
  unfolding build_slides_def load_registry_def read_text_def write_text_def click_echo_def
  by (auto split: option.splits if_splits)

lemma build_slides_runs:
  "docs w ''slides.yaml'' = Some text \<Longrightarrow> yaml_safe_load text = Some registry \<Longrightarrow>
   writable w ''slides.qmd'' \<Longrightarrow> writable w ''recent.qmd'' \<Longrightarrow> writable w ''styles.css'' \<Longrightarrow>
   \<exists>w1. build_slides yaml_safe_load n w = Ok () w1
     \<and> docs w1 = (docs w)(''slides.qmd'' \<mapsto> build_slides_qmd registry,
                           ''recent.qmd'' \<mapsto> build_recent_qmd registry n,
                           ''styles.css'' \<mapsto> build_styles_css)"
  unfolding build_slides_def load_registry_def read_text_def write_text_def click_echo_def
  by simp

subsection \<open>Building twice\<close>

text \<open>
  Claim C9.  The two documents are functions of the registry and the count alone: the
  compiler reads nothing else and leaves the registry as it is.  So a build that succeeds
  can be run again on the world it left, succeeds again and leaves every file as the
  first build left it: \<open>slides.qmd\<close>, \<open>recent.qmd\<close> and \<open>styles.css\<close> hold the
  documents of the registry read from \<open>slides.yaml\<close>.
\<close>

theorem build_twice:
  "build_slides yaml_safe_load n w = Ok () w1 \<Longrightarrow>
   (\<exists>w2. build_slides yaml_safe_load n w1 = Ok () w2 \<and> docs w2 = docs w1)
   \<and> (\<exists>text registry. docs w ''slides.yaml'' = Some text \<and> yaml_safe_load text = Some registry
         \<and> docs w1 ''slides.qmd'' = Some (build_slides_qmd registry)
         \<and> docs w1 ''recent.qmd'' = Some (build_recent_qmd registry n)
         \<and> docs w1 ''styles.css'' = Some build_styles_css)"
proof -
  assume b: "build_slides yaml_safe_load n w = Ok () w1"
  from build_slides_result [OF b] obtain content registry where
    t: "docs w ''slides.yaml'' = Some content" "yaml_safe_load content = Some registry"
    and wr: "writable w ''slides.qmd''" "writable w ''recent.qmd''" "writable w ''styles.css''"
      "writable w1 = writable w"
    and d: "docs w1 = (docs w)(''slides.qmd'' \<mapsto> build_slides_qmd registry,
                           ''recent.qmd'' \<mapsto> build_recent_qmd registry n,
                           ''styles.css'' \<mapsto> build_styles_css)"
    by blast
  from t d have t1: "docs w1 ''slides.yaml'' = Some content" by simp
  from build_slides_runs [of w1 content yaml_safe_load registry n] t1 t(2) wr obtain w2 where
    b2: "build_slides yaml_safe_load n w1 = Ok () w2"
    and d2: "docs w2 = (docs w1)(''slides.qmd'' \<mapsto> build_slides_qmd registry,
                           ''recent.qmd'' \<mapsto> build_recent_qmd registry n,
                           ''styles.css'' \<mapsto> build_styles_css)"
    by auto
  have "docs w2 = docs w1" unfolding d2 unfolding d by (simp add: fun_eq_iff)
  with b2 have one: "\<exists>w2. build_slides yaml_safe_load n w1 = Ok () w2 \<and> docs w2 = docs w1"
    by blast
  from t d have two: "\<exists>text registry. docs w ''slides.yaml'' = Some text \<and> yaml_safe_load text = Some registry
         \<and> docs w1 ''slides.qmd'' = Some (build_slides_qmd registry)
         \<and> docs w1 ''recent.qmd'' = Some (build_recent_qmd registry n)
         \<and> docs w1 ''styles.css'' = Some build_styles_css"
    by simp
  from one two show ?thesis by blast
qed

theorem build_twice_witness:
  "raised (build_slides demo_loader 10 registry_file) = None
   \<and> raised (build_slides demo_loader 10 (final_world (build_slides demo_loader 10 registry_file))) = None
   \<and> docs (final_world (build_slides demo_loader 10 (final_world (build_slides demo_loader 10 registry_file))))
      = docs (final_world (build_slides demo_loader 10 registry_file))
   \<and> docs (final_world (build_slides demo_loader 10 registry_file)) ''slides.qmd''
      = Some (build_slides_qmd tied_dates)"
proof -
  let ?r = "build_slides demo_loader 10 registry_file"
  have t: "docs registry_file ''slides.yaml'' = Some ''title: Demo''"
    "demo_loader ''title: Demo'' = Some tied_dates"
    "writable registry_file ''slides.qmd''" "writable registry_file ''recent.qmd''"
    "writable registry_file ''styles.css''"
    by (simp_all add: registry_file_def demo_loader_def)
  from build_slides_runs [of registry_file "''title: Demo''" demo_loader tied_dates 10] t
  have ok: "raised ?r = None" by auto
  then have r: "?r = Ok () (final_world ?r)" by (rule unit_result)
  from build_twice [OF r] t show ?thesis using ok by auto
qed

subsection \<open>Reading the log\<close>

text \<open>
  Claim C7.  When the log query succeeds, the history is made of the lines of its output
  that have three pipe-delimited fields, in their order, one revision per such line with
  the fields as revision id, timestamp and subject; a line that does not split into
  exactly three fields (under \<open>split("|", 2)\<close>, so the subject may itself hold pipes)
  adds nothing and no line makes the query fail.
\<close>

theorem history_lines:
  "git_log g p = Exited 0 out \<Longrightarrow>
   get_figure_history g p = Inr (List.map_filter parse_line (py_split (CHR ''\<newline>'') (py_strip out)))
   \<and> (\<forall>line. (parse_line line = None) = (length (py_split_max (CHR ''|'') 2 line) \<noteq> 3))
   \<and> (\<forall>line r. parse_line line = Some r
         \<longrightarrow> py_split_max (CHR ''|'') 2 line = [r_commit r, r_date r, r_message r])
   \<and> (\<forall>history line. history_step history line
         = (case parse_line line of None \<Rightarrow> history | Some r \<Rightarrow> history @ [r]))"
proof -
  assume a: "git_log g p = Exited 0 out"
  have n: "\<forall>line. (parse_line line = None) = (length (py_split_max (CHR ''|'') 2 line) \<noteq> 3)"
    by (simp add: parse_line_split)
  have s: "\<forall>line r. parse_line line = Some r
         \<longrightarrow> py_split_max (CHR ''|'') 2 line = [r_commit r, r_date r, r_message r]"
    unfolding parse_line_def count_two split_two by auto
  from get_figure_history_ok [OF a] n s history_step_parse show ?thesis by blast
qed

theorem history_lines_witness:
  "get_figure_history two_revisions ''figures/plot.png''
     = Inr [\<lparr>r_commit = ''aaaaaaaaaa1111'', r_date = ''2024-01-02 10:00:00 +0000'',
              r_message = ''Second | draft''\<rparr>,
            \<lparr>r_commit = ''bbbbbbbbbb2222'', r_date = ''2024-01-01 09:00:00 +0000'',
              r_message = ''First''\<rparr>]
   \<and> parse_line ''not a record'' = None
   \<and> length (py_split_max (CHR ''|'') 2 ''not a record'') \<noteq> 3"
proof -
  have l: "git_log two_revisions ''figures/plot.png''
      = Exited 0 (''aaaaaaaaaa1111|2024-01-02 10:00:00 +0000|Second | draft\<newline>'' @
                  ''not a record\<newline>'' @
                  ''bbbbbbbbbb2222|2024-01-01 09:00:00 +0000|First\<newline>'')"
    by (simp add: two_revisions_def)
  have v: "get_figure_history two_revisions ''figures/plot.png''
     = Inr [\<lparr>r_commit = ''aaaaaaaaaa1111'', r_date = ''2024-01-02 10:00:00 +0000'',
              r_message = ''Second | draft''\<rparr>,
            \<lparr>r_commit = ''bbbbbbbbbb2222'', r_date = ''2024-01-01 09:00:00 +0000'',
              r_message = ''First''\<rparr>]"
    by code_simp
  have n: "parse_line ''not a record'' = None"
    by code_simp
  from history_lines [OF l] have
    "(parse_line ''not a record'' = None) = (length (py_split_max (CHR ''|'') 2 ''not a record'') \<noteq> 3)"
    by blast
  with v n show ?thesis by blast
qed




subsection \<open>The comparison\<close>






text \<open>
  Claim C10.  With at least two revisions whose extractions all fail and an output that can
  be written, the command still writes the page at the output path: no card, "0 versions
  found", and it prints that the comparison was generated, showing 0 versions.
\<close>

theorem all_extractions_fail:
  "get_figure_history g p = Inr h \<Longrightarrow> 2 \<le> length h \<Longrightarrow> writable w out \<Longrightarrow>
   \<forall>r \<in> set h. \<exists>rc content. git_show g (r_commit r @ '':'' @ p) = Exited rc content \<and> rc \<noteq> 0 \<Longrightarrow>
   (\<exists>w'. generate_comparison g p out w = Ok () w'
      \<and> docs w' out = Some (generate_comparison_html p [])
      \<and> console w' = console w @ [''Generated comparison: '' @ out, ''Showing 0 versions'']
      \<and> tmp_dir w' = None)
   \<and> generate_comparison_html p [] =
       page_open @ p @ page_style @ p @ page_heading_end @ ''0'' @ page_count_end @ page_close"
proof -
  assume h: "get_figure_history g p = Inr h" and l: "2 \<le> length h" and wr: "writable w out"
    and f: "\<forall>r \<in> set h. \<exists>rc content. git_show g (r_commit r @ '':'' @ p) = Exited rc content \<and> rc \<noteq> 0"
  from f have ns: "\<forall>r \<in> set h. git_show g (r_commit r @ '':'' @ p) \<noteq> NotStarted"
    by auto
  from f have "\<forall>ir \<in> set (enumerate 0 h). extracted g p ir = None"
    by (meson enumerate_snd extracted_failure)
  then have e: "List.map_filter (extracted g p) (enumerate 0 h) = []"
    by (rule map_filter_none)
  from generate_comparison_result [OF h l ns wr]
  have a: "\<exists>w'. generate_comparison g p out w = Ok () w'
      \<and> docs w' out = Some (generate_comparison_html p [])
      \<and> console w' = console w @ [''Generated comparison: '' @ out, ''Showing 0 versions'']
      \<and> tmp_dir w' = None"
    unfolding e by (auto simp: str_nat_zero)
  have b: "generate_comparison_html p [] =
       page_open @ p @ page_style @ p @ page_heading_end @ ''0'' @ page_count_end @ page_close"
    by (simp add: comparison_page str_nat_zero)
  from a b show ?thesis by blast
qed

theorem all_extractions_fail_witness:
  "raised (generate_comparison two_revisions_lost ''figures/plot.png'' ''out.html'' empty_world) = None
   \<and> docs (final_world (generate_comparison two_revisions_lost ''figures/plot.png'' ''out.html'' empty_world))
       ''out.html'' = Some (generate_comparison_html ''figures/plot.png'' [])
   \<and> console (final_world (generate_comparison two_revisions_lost ''figures/plot.png'' ''out.html'' empty_world))
       = [''Generated comparison: out.html'', ''Showing 0 versions'']"
proof -
  let ?h = "[\<lparr>r_commit = ''aaaaaaaaaa1111'', r_date = ''2024-01-02 10:00:00 +0000'',
              r_message = ''Second | draft''\<rparr>,
            \<lparr>r_commit = ''bbbbbbbbbb2222'', r_date = ''2024-01-01 09:00:00 +0000'',
              r_message = ''First''\<rparr>]"
  have h: "get_figure_history two_revisions_lost ''figures/plot.png'' = Inr ?h"
    by code_simp
  have f: "\<forall>r \<in> set ?h. \<exists>rc content.
      git_show two_revisions_lost (r_commit r @ '':'' @ ''figures/plot.png'') = Exited rc content \<and> rc \<noteq> 0"
    by (simp add: two_revisions_lost_def)
  have wr: "writable empty_world ''out.html''"
    by (simp add: empty_world_def)
  have l: "2 \<le> length ?h" by simp
  have c: "console empty_world = []" by (simp add: empty_world_def)
  from all_extractions_fail [OF h l wr f] c show ?thesis by auto
qed

end
